theory Spec2Isabelle
  imports Complex_Main "HOL-Library.Word"
begin

section \<open>Values, tables and exceptions\<close>

text \<open>
  The program (\<^verbatim>\<open>src/app.py\<close>) is a four-stage pipeline over a pandas table:
  \<^verbatim>\<open>load_data\<close>, \<^verbatim>\<open>find_data_center\<close>, \<^verbatim>\<open>plot_map\<close>, \<^verbatim>\<open>calculate_impact\<close>,
  \<^verbatim>\<open>display_3d_bar_chart\<close>, run in order by \<^verbatim>\<open>main\<close>.

  A Python float is either a number or \<^verbatim>\<open>NaN\<close> (what pandas stores for a blank
  spreadsheet cell). Numbers are modelled as reals: rounding of IEEE doubles is abstracted.
  A spreadsheet cell is a float or a piece of text; \<open>Text\<close> stands for text that does not
  denote a number.
\<close>

datatype pyfloat = Val real | NaN

datatype cell = Float pyfloat | Text string

text \<open>
  The exceptions the model raises. All of them derive from Python's \<^verbatim>\<open>Exception\<close>, which
  is what the handler \<^verbatim>\<open>except Exception as e\<close> of \<^verbatim>\<open>load_data\<close> catches.
\<close>

datatype py_exception =
    ValueError
  | TypeError
  | IndexError
  | FileNotFoundError
  | RequestException
  | BadZipFile
  | OtherException string

type_synonym bytes = "8 word list"

type_synonym point = "real \<times> real"

text \<open>
  The two sheets of the workbook and the joined table. The columns are those the program
  reads: \<^verbatim>\<open>school_id_giga\<close> (the join key, of any type \<open>'k\<close> with equality),
  \<^verbatim>\<open>latitude\<close>, \<^verbatim>\<open>longitude\<close>, \<^verbatim>\<open>download_speed\<close>, \<^verbatim>\<open>upload_speed\<close>,
  \<^verbatim>\<open>latency\<close> and the optional \<^verbatim>\<open>school_name\<close> (\<open>None\<close> when the column is absent,
  where \<^verbatim>\<open>row.get('school_name', 'N/A')\<close> takes its default).
\<close>

record 'k lat_long_row =
  ll_school_id_giga :: 'k
  ll_latitude :: cell
  ll_longitude :: cell
  ll_school_name :: "cell option"

record 'k measurement_row =
  m_school_id_giga :: 'k
  m_download_speed :: cell
  m_upload_speed :: cell
  m_latency :: cell

record 'k measurement_record =
  school_id_giga :: 'k
  latitude :: cell
  longitude :: cell
  school_name :: "cell option"
  download_speed :: cell
  upload_speed :: cell
  latency :: cell

text \<open>
  A DataFrame is the list of its rows, in order; \<^verbatim>\<open>pd.DataFrame()\<close> and a join without
  rows are both \<open>[]\<close>, and \<^verbatim>\<open>df.empty\<close> is \<open>df = []\<close>.
\<close>

type_synonym 'k dataframe = "'k measurement_record list"

section \<open>The display surface and the file system\<close>

datatype popup = School_Popup cell cell cell cell | Plain_Popup string

record marker =
  mk_location :: point
  mk_popup :: popup
  mk_color :: string
  mk_icon :: string

record folium_map =
  map_location :: point
  map_zoom_start :: nat
  map_cluster :: "marker list"
  map_markers :: "marker list"

record chart =
  ch_metric :: "string list"
  ch_before :: "pyfloat option list"
  ch_after :: "pyfloat option list"
  ch_barmode :: string
  ch_title :: string
  ch_height :: nat

text \<open>
  What the Streamlit session shows, in order: a line of \<^verbatim>\<open>st.write\<close> (the two f-strings
  that interpolate a status code or an exception keep the interpolated value), the embedded
  map of \<^verbatim>\<open>components.html\<close> with its height, and the chart of \<^verbatim>\<open>st.plotly_chart\<close>.
\<close>

datatype st_element =
    Write string
  | Write_Failed_Status int
  | Write_Error py_exception
  | Html folium_map nat
  | Plotly_Chart chart

record state =
  display :: "st_element list"
  files :: "string \<rightharpoonup> folium_map"

definition st_write :: "st_element \<Rightarrow> state \<Rightarrow> state" where
  "st_write x s = s\<lparr>display := display s @ [x]\<rparr>"

section \<open>Library calls\<close>

text \<open>
  Modelled from the spec: \<^verbatim>\<open>pandas.merge(..., how="inner")\<close> is library code, not in the
  repository. The spec: ``Performs an inner join on a shared key column; rows present in
  only one sheet are excluded''. Every pair of a left row and a right row with equal keys
  gives one joined row, in the order of the left rows.
\<close>

definition join_row :: "'k lat_long_row \<Rightarrow> 'k measurement_row \<Rightarrow> 'k measurement_record" where
  "join_row a b =
     \<lparr>school_id_giga = ll_school_id_giga a,
      latitude = ll_latitude a,
      longitude = ll_longitude a,
      school_name = ll_school_name a,
      download_speed = m_download_speed b,
      upload_speed = m_upload_speed b,
      latency = m_latency b\<rparr>"

definition merge_inner :: "'k lat_long_row list \<Rightarrow> 'k measurement_row list \<Rightarrow> 'k dataframe" where
  "merge_inner A B =
     concat (map (\<lambda>a. map (join_row a)
                          (filter (\<lambda>b. m_school_id_giga b = ll_school_id_giga a) B)) A)"

text \<open>
  Modelled from the spec: the input validation of scikit-learn (\<^verbatim>\<open>KMeans.fit\<close>) and of
  folium (\<^verbatim>\<open>Marker(location=...)\<close>) is library code, not in the repository. The spec:
  ``malformed-but-present data (e.g., non-numeric coordinates) is not guarded against and
  would propagate as an unhandled failure''. Both libraries convert the cell to a float: a
  number passes, \<^verbatim>\<open>NaN\<close> and non-numeric text raise \<^verbatim>\<open>ValueError\<close>.
\<close>

fun to_float :: "cell \<Rightarrow> py_exception + real" where
  "to_float (Float (Val x)) = Inr x"
| "to_float (Float NaN) = Inl ValueError"
| "to_float (Text t) = Inl ValueError"

definition to_point :: "cell \<times> cell \<Rightarrow> py_exception + point" where
  "to_point c =
     (case to_float (fst c) of
        Inl e \<Rightarrow> Inl e
      | Inr x \<Rightarrow> (case to_float (snd c) of Inl e \<Rightarrow> Inl e | Inr y \<Rightarrow> Inr (x, y)))"

fun collect :: "(py_exception + 'a) list \<Rightarrow> py_exception + 'a list" where
  "collect [] = Inr []"
| "collect (Inl e # rs) = Inl e"
| "collect (Inr x # rs) = (case collect rs of Inl e \<Rightarrow> Inl e | Inr xs \<Rightarrow> Inr (x # xs))"

text \<open>
  Modelled from the spec: \<^verbatim>\<open>sklearn.cluster.KMeans\<close> is library code, not in the
  repository. The spec: ``an iterative unsupervised partitioning algorithm
  (assign-to-nearest-center / recompute-center, iterated to convergence) over the
  two-dimensional (latitude, longitude) feature space, with a fixed random seed''.
  The seeded generator is the parameter \<open>pick\<close>: \<open>pick X i\<close> is the index of the data
  point taken as the \<open>i\<close>-th initial centre. A cluster that loses all its points keeps its
  centre. The iteration stops when a step leaves the centres unchanged, or after
  \<open>max_iter\<close> steps.
\<close>

type_synonym chooser = "point list \<Rightarrow> nat \<Rightarrow> nat"

definition sqdist :: "point \<Rightarrow> point \<Rightarrow> real" where
  "sqdist p c = (fst p - fst c)\<^sup>2 + (snd p - snd c)\<^sup>2"

fun nearest :: "point list \<Rightarrow> point \<Rightarrow> nat" where
  "nearest [] p = 0"
| "nearest [c] p = 0"
| "nearest (c # cs) p =
     (let j = nearest cs p in if sqdist p c \<le> sqdist p (cs ! j) then 0 else Suc j)"

definition mean_point :: "point list \<Rightarrow> point" where
  "mean_point ps =
     (sum_list (map fst ps) / real (length ps), sum_list (map snd ps) / real (length ps))"

definition members :: "point list \<Rightarrow> point list \<Rightarrow> nat \<Rightarrow> point list" where
  "members cs ps j = filter (\<lambda>p. nearest cs p = j) ps"

definition lloyd_step :: "point list \<Rightarrow> point list \<Rightarrow> point list" where
  "lloyd_step cs ps =
     map (\<lambda>j. if members cs ps j = [] then cs ! j else mean_point (members cs ps j))
         [0..<length cs]"

fun lloyd :: "nat \<Rightarrow> point list \<Rightarrow> point list \<Rightarrow> point list" where
  "lloyd 0 cs ps = cs"
| "lloyd (Suc n) cs ps =
     (let cs' = lloyd_step cs ps in if cs' = cs then cs else lloyd n cs' ps)"

definition max_iter :: nat where
  "max_iter = 300"

definition init_centers :: "chooser \<Rightarrow> nat \<Rightarrow> point list \<Rightarrow> point list" where
  "init_centers pick k ps = map (\<lambda>i. ps ! (pick ps i mod length ps)) [0..<k]"

definition kmeans_fit :: "chooser \<Rightarrow> int \<Rightarrow> (cell \<times> cell) list \<Rightarrow> py_exception + point list" where
  "kmeans_fit pick n_clusters X =
     (case collect (map to_point X) of
        Inl e \<Rightarrow> Inl e
      | Inr ps \<Rightarrow>
          if n_clusters < 1 \<or> int (length ps) < n_clusters then Inl ValueError
          else Inr (lloyd max_iter (init_centers pick (nat n_clusters) ps) ps))"

text \<open>
  Modelled from the spec: \<^verbatim>\<open>Series.mean\<close> is library code, not in the repository. The
  spec: ``computes the arithmetic mean of latency, download_speed, upload_speed across all
  records''. pandas leaves missing values (\<^verbatim>\<open>NaN\<close>) out of the mean, gives \<^verbatim>\<open>NaN\<close> when
  nothing is left, and raises \<^verbatim>\<open>TypeError\<close> on text.
\<close>

fun floats_of :: "cell list \<Rightarrow> py_exception + real list" where
  "floats_of [] = Inr []"
| "floats_of (Text t # cs) = Inl TypeError"
| "floats_of (Float NaN # cs) = floats_of cs"
| "floats_of (Float (Val x) # cs) =
     (case floats_of cs of Inl e \<Rightarrow> Inl e | Inr xs \<Rightarrow> Inr (x # xs))"

definition average :: "real list \<Rightarrow> real" where
  "average xs = sum_list xs / real (length xs)"

definition mean_col :: "cell list \<Rightarrow> py_exception + pyfloat" where
  "mean_col cs =
     (case floats_of cs of
        Inl e \<Rightarrow> Inl e
      | Inr xs \<Rightarrow> if xs = [] then Inr NaN else Inr (Val (average xs)))"

text \<open>Python's float product: \<^verbatim>\<open>NaN\<close> times anything is \<^verbatim>\<open>NaN\<close>.\<close>

fun fmul :: "pyfloat \<Rightarrow> real \<Rightarrow> pyfloat" where
  "fmul (Val x) c = Val (x * c)"
| "fmul NaN c = NaN"

section \<open>The stages\<close>

text \<open>
  A stage takes the DataFrame it is passed (a reference to a mutable object in Python), and
  the state of the session; it returns its result or the exception it raises, the
  DataFrame as the call leaves it, and the new state.
\<close>

definition find_data_center ::
  "chooser \<Rightarrow> 'k dataframe \<Rightarrow> int \<Rightarrow> state
     \<Rightarrow> (py_exception + point list option) \<times> 'k dataframe \<times> state" where
  "find_data_center pick df n_clusters s =
     (if df = [] then
        (Inr None, df, st_write (Write ''Dataframe is empty, skipping clustering'') s)
      else
        (case kmeans_fit pick n_clusters (map (\<lambda>r. (latitude r, longitude r)) df) of
           Inl e \<Rightarrow> (Inl e, df, s)
         | Inr centers \<Rightarrow> (Inr (Some centers), df, s)))"

type_synonym impact = "pyfloat \<times> pyfloat \<times> pyfloat \<times> pyfloat \<times> pyfloat \<times> pyfloat"

definition calculate_impact ::
  "'k dataframe \<Rightarrow> 'c \<Rightarrow> state \<Rightarrow> (py_exception + impact option) \<times> 'k dataframe \<times> state" where
  "calculate_impact df center s =
     (if df = [] then
        (Inr None, df, st_write (Write ''Dataframe is empty, skipping impact calculation'') s)
      else
        (case mean_col (map latency df) of
           Inl e \<Rightarrow> (Inl e, df, s)
         | Inr avg_latency_before \<Rightarrow>
        (case mean_col (map download_speed df) of
           Inl e \<Rightarrow> (Inl e, df, s)
         | Inr avg_download_before \<Rightarrow>
        (case mean_col (map upload_speed df) of
           Inl e \<Rightarrow> (Inl e, df, s)
         | Inr avg_upload_before \<Rightarrow>
             (let latency_reduction = fmul avg_latency_before 0.8;
                  download_increase = fmul avg_download_before 1.2;
                  upload_increase = fmul avg_upload_before 1.2
              in (Inr (Some (latency_reduction, download_increase, upload_increase,
                             avg_latency_before, avg_download_before, avg_upload_before)),
                  df, s))))))"

text \<open>
  The marker of one school (lines 59 to 68). folium converts the location to floats and
  raises \<^verbatim>\<open>ValueError\<close> when it cannot.
\<close>

definition school_marker :: "'k measurement_record \<Rightarrow> py_exception + marker" where
  "school_marker row =
     (case to_point (latitude row, longitude row) of
        Inl e \<Rightarrow> Inl e
      | Inr loc \<Rightarrow>
          Inr \<lparr>mk_location = loc,
               mk_popup = School_Popup
                 (case school_name row of None \<Rightarrow> Text ''N/A'' | Some n \<Rightarrow> n)
                 (download_speed row) (upload_speed row) (latency row),
               mk_color = ''blue'',
               mk_icon = ''info-sign''\<rparr>)"

text \<open>
  \<open>center\<close> is the array of cluster centres, or \<open>None\<close>; \<^verbatim>\<open>center[0]\<close> raises
  \<^verbatim>\<open>TypeError\<close> on \<open>None\<close> and \<^verbatim>\<open>IndexError\<close> on an array without rows.
\<close>

definition plot_map ::
  "'k dataframe \<Rightarrow> point list option \<Rightarrow> state
     \<Rightarrow> (py_exception + string option) \<times> 'k dataframe \<times> state" where
  "plot_map df center s =
     (if df = [] then
        (Inr None, df, st_write (Write ''Dataframe is empty, skipping map plotting'') s)
      else
        (case center of
           None \<Rightarrow> (Inl TypeError, df, s)
         | Some [] \<Rightarrow> (Inl IndexError, df, s)
         | Some (c # cs) \<Rightarrow>
             (case collect (map school_marker df) of
                Inl e \<Rightarrow> (Inl e, df, s)
              | Inr ms \<Rightarrow>
                  (let m = \<lparr>map_location = c,
                            map_zoom_start = 10,
                            map_cluster = ms,
                            map_markers =
                              [\<lparr>mk_location = c,
                                mk_popup = Plain_Popup ''Proposed Data Center'',
                                mk_color = ''red'',
                                mk_icon = ''cloud''\<rparr>]\<rparr>
                   in (Inr (Some ''map.html''), df,
                       s\<lparr>files := (files s)(''map.html'' \<mapsto> m)\<rparr>)))))"

definition display_3d_bar_chart ::
  "pyfloat option \<Rightarrow> pyfloat option \<Rightarrow> pyfloat option \<Rightarrow>
   pyfloat option \<Rightarrow> pyfloat option \<Rightarrow> pyfloat option \<Rightarrow> state
     \<Rightarrow> (py_exception + unit) \<times> state" where
  "display_3d_bar_chart latency_reduction download_increase upload_increase
       avg_latency_before avg_download_before avg_upload_before s =
     (if latency_reduction = None then
        (Inr (), st_write (Write ''No data to display in the chart.'') s)
      else
        (let fig = \<lparr>ch_metric = [''Latency (ms)'', ''Download Speed (Mbps)'',
                                 ''Upload Speed (Mbps)''],
                    ch_before = [avg_latency_before, avg_download_before, avg_upload_before],
                    ch_after = [latency_reduction, download_increase, upload_increase],
                    ch_barmode = ''group'',
                    ch_title = ''Impact of Data Center on Latency and Bandwidth'',
                    ch_height = 400\<rparr>
         in (Inr (), st_write (Plotly_Chart fig) s)))"

section \<open>The Loader\<close>

text \<open>
  The network and the spreadsheet parser are parameters: \<open>http_get\<close> is
  \<^verbatim>\<open>requests.get\<close>, which returns a response or raises, and the two fields of
  \<open>excel\<close> are \<^verbatim>\<open>pd.read_excel\<close> on the sheets \<^verbatim>\<open>"lat long"\<close> and
  \<^verbatim>\<open>"measurement data"\<close>, which return the sheet or raise on a payload they cannot parse.
\<close>

record response =
  status_code :: int
  content :: bytes

record 'k excel =
  read_lat_long :: "bytes \<Rightarrow> py_exception + 'k lat_long_row list"
  read_measurement :: "bytes \<Rightarrow> py_exception + 'k measurement_row list"

type_synonym requests = "string \<Rightarrow> py_exception + response"

text \<open>The body of the \<^verbatim>\<open>try\<close> block (lines 14 to 35).\<close>

definition load_data_try ::
  "requests \<Rightarrow> 'k excel \<Rightarrow> string \<Rightarrow> state \<Rightarrow> (py_exception + 'k dataframe) \<times> state" where
  "load_data_try http_get xl url s =
     (let s1 = st_write (Write (''Loading data from '' @ url @ ''...'')) s in
      case http_get url of
        Inl e \<Rightarrow> (Inl e, s1)
      | Inr resp \<Rightarrow>
          if status_code resp = 200 then
            (case read_lat_long xl (content resp) of
               Inl e \<Rightarrow> (Inl e, s1)
             | Inr lat_long_data \<Rightarrow>
                 (case read_measurement xl (content resp) of
                    Inl e \<Rightarrow> (Inl e, s1)
                  | Inr measurement_data \<Rightarrow>
                      (let merged_data = merge_inner lat_long_data measurement_data
                       in (Inr merged_data, st_write (Write ''Data loaded successfully'') s1))))
          else (Inr [], st_write (Write_Failed_Status (status_code resp)) s1))"

text \<open>The whole function: the handler \<^verbatim>\<open>except Exception as e\<close> (lines 36 to 38).\<close>

definition load_data ::
  "requests \<Rightarrow> 'k excel \<Rightarrow> string \<Rightarrow> state \<Rightarrow> (py_exception + 'k dataframe) \<times> state" where
  "load_data http_get xl url s =
     (case load_data_try http_get xl url s of
        (Inl e, s1) \<Rightarrow> (Inr [], st_write (Write_Error e) s1)
      | (Inr df, s1) \<Rightarrow> (Inr df, s1))"

section \<open>The pipeline\<close>

definition data_url :: string where
  "data_url = ''https://huggingface.co/spaces/engralimalik/lace/resolve/main/data%20barbados.xlsx''"

text \<open>
  Lines 148 and 149: when \<open>map_file\<close> is a non-empty string, the file is read back and
  embedded with height 600; \<^verbatim>\<open>open\<close> raises when the file does not exist.
\<close>

definition embed_map :: "string option \<Rightarrow> state \<Rightarrow> (py_exception + unit) \<times> state" where
  "embed_map map_file s =
     (case map_file of
        None \<Rightarrow> (Inr (), s)
      | Some f \<Rightarrow>
          if f = [] then (Inr (), s)
          else (case files s f of
                  None \<Rightarrow> (Inl FileNotFoundError, s)
                | Some html \<Rightarrow> (Inr (), st_write (Html html 600) s)))"

text \<open>
  Lines 151 to 154: the result of \<^verbatim>\<open>calculate_impact\<close> is unpacked into six names, which
  raises \<^verbatim>\<open>TypeError\<close> when the result is \<open>None\<close>.
\<close>

definition report_impact ::
  "'k dataframe \<Rightarrow> point list \<Rightarrow> state \<Rightarrow> (py_exception + unit) \<times> state" where
  "report_impact df center s =
     (case calculate_impact df center s of
        (Inl e, df', s1) \<Rightarrow> (Inl e, s1)
      | (Inr None, df', s1) \<Rightarrow> (Inl TypeError, s1)
      | (Inr (Some (latency_reduction, download_increase, upload_increase,
                    avg_latency_before, avg_download_before, avg_upload_before)), df', s1) \<Rightarrow>
          if Some latency_reduction \<noteq> None then
            display_3d_bar_chart (Some latency_reduction) (Some download_increase)
              (Some upload_increase) (Some avg_latency_before) (Some avg_download_before)
              (Some avg_upload_before) s1
          else (Inr (), s1))"

definition main :: "requests \<Rightarrow> 'k excel \<Rightarrow> chooser \<Rightarrow> state \<Rightarrow> (py_exception + unit) \<times> state" where
  "main http_get xl pick s =
     (case load_data http_get xl data_url s of
        (Inl e, s1) \<Rightarrow> (Inl e, s1)
      | (Inr df, s1) \<Rightarrow>
          if df = [] then
            (Inr (), st_write (Write ''No data to process, exiting application.'') s1)
          else
            (case find_data_center pick df 1 s1 of
               (Inl e, df1, s2) \<Rightarrow> (Inl e, s2)
             | (Inr None, df1, s2) \<Rightarrow>
                 (Inr (), st_write (Write ''Could not find data center, exiting application.'') s2)
             | (Inr (Some center), df1, s2) \<Rightarrow>
                 (case plot_map df1 (Some center) s2 of
                    (Inl e, df2, s3) \<Rightarrow> (Inl e, s3)
                  | (Inr map_file, df2, s3) \<Rightarrow>
                      (case embed_map map_file s3 of
                         (Inl e, s4) \<Rightarrow> (Inl e, s4)
                       | (Inr u, s4) \<Rightarrow> report_impact df2 center s4))))"

section \<open>Vocabulary of the specification\<close>

text \<open>A numeric cell, and membership of a point in the convex hull of a list of points.\<close>

definition num :: "real \<Rightarrow> cell" where
  "num x = Float (Val x)"

definition in_convex_hull :: "point \<Rightarrow> point list \<Rightarrow> bool" where
  "in_convex_hull p ps \<longleftrightarrow>
     (\<exists>w. length w = length ps \<and> (\<forall>x \<in> set w. 0 \<le> x) \<and> sum_list w = 1 \<and>
          p = (sum_list (map2 (*) w (map fst ps)), sum_list (map2 (*) w (map snd ps))))"

text \<open>
  Two readings of ``the mean of a column''. \<open>mean_over_all_records\<close> follows the words of
  the claim: the values of all records are added and the sum is divided by the number of
  records, in float arithmetic, where a record without a number makes the sum \<^verbatim>\<open>NaN\<close>.
  \<open>mean_non_blank\<close> adds the numbers that are present and divides by how many there are;
  it is \<^verbatim>\<open>NaN\<close> when there is none.
\<close>

fun is_text :: "cell \<Rightarrow> bool" where
  "is_text (Text t) = True"
| "is_text (Float f) = False"

definition has_text :: "cell list \<Rightarrow> bool" where
  "has_text cs = list_ex is_text cs"

fun non_blank :: "cell list \<Rightarrow> real list" where
  "non_blank [] = []"
| "non_blank (Float (Val x) # cs) = x # non_blank cs"
| "non_blank (c # cs) = non_blank cs"

definition mean_non_blank :: "cell list \<Rightarrow> pyfloat" where
  "mean_non_blank cs =
     (if non_blank cs = [] then NaN
      else Val (sum_list (non_blank cs) / real (length (non_blank cs))))"

fun fadd :: "pyfloat \<Rightarrow> pyfloat \<Rightarrow> pyfloat" where
  "fadd (Val x) (Val y) = Val (x + y)"
| "fadd a b = NaN"

fun value_of :: "cell \<Rightarrow> pyfloat" where
  "value_of (Float f) = f"
| "value_of (Text t) = NaN"

definition mean_over_all_records :: "cell list \<Rightarrow> pyfloat" where
  "mean_over_all_records cs =
     (case foldr fadd (map value_of cs) (Val 0) of
        Val t \<Rightarrow> Val (t / real (length cs))
      | NaN \<Rightarrow> NaN)"

text \<open>
  Example inputs, after the end-to-end scenario of the spec (a school at latitude 13.1,
  longitude -59.6 with download 10, upload 2 and latency 50).
\<close>

definition empty_session :: state where
  "empty_session = \<lparr>display = [], files = Map.empty\<rparr>"

definition geo :: "nat \<Rightarrow> real \<Rightarrow> real \<Rightarrow> nat lat_long_row" where
  "geo k lat lon =
     \<lparr>ll_school_id_giga = k, ll_latitude = num lat, ll_longitude = num lon,
      ll_school_name = None\<rparr>"

definition measurement :: "nat \<Rightarrow> real \<Rightarrow> real \<Rightarrow> real \<Rightarrow> nat measurement_row" where
  "measurement k down up lat_ms =
     \<lparr>m_school_id_giga = k, m_download_speed = num down, m_upload_speed = num up,
      m_latency = num lat_ms\<rparr>"

definition school ::
  "nat \<Rightarrow> real \<Rightarrow> real \<Rightarrow> real \<Rightarrow> real \<Rightarrow> real \<Rightarrow> nat measurement_record" where
  "school k lat lon down up lat_ms =
     \<lparr>school_id_giga = k, latitude = num lat, longitude = num lon, school_name = None,
      download_speed = num down, upload_speed = num up, latency = num lat_ms\<rparr>"

text \<open>A record whose latency cell is blank, and one whose latency cell is text.\<close>

definition blank_latency :: "nat measurement_record \<Rightarrow> nat measurement_record" where
  "blank_latency r = r\<lparr>latency := Float NaN\<rparr>"

definition text_latency :: "nat measurement_record \<Rightarrow> nat measurement_record" where
  "text_latency r = r\<lparr>latency := Text ''n/a''\<rparr>"

text \<open>
  Example environments: a server that answers every request with a given status code, a
  network that fails, a server that only knows the program's URL, a workbook with given
  sheets and a payload that is no workbook.
\<close>

definition respond :: "int \<Rightarrow> requests" where
  "respond code url = Inr \<lparr>status_code = code, content = []\<rparr>"

definition unreachable :: requests where
  "unreachable url = Inl RequestException"

definition mirror :: requests where
  "mirror url =
     (if url = data_url then Inr \<lparr>status_code = 200, content = []\<rparr> else Inl RequestException)"

definition workbook :: "nat lat_long_row list \<Rightarrow> nat measurement_row list \<Rightarrow> nat excel" where
  "workbook A B = \<lparr>read_lat_long = (\<lambda>payload. Inr A), read_measurement = (\<lambda>payload. Inr B)\<rparr>"

definition corrupt :: "nat excel" where
  "corrupt =
     \<lparr>read_lat_long = (\<lambda>payload. Inl BadZipFile), read_measurement = (\<lambda>payload. Inl BadZipFile)\<rparr>"

section \<open>Properties\<close>

text \<open>
  C6: for the empty Dataset the Locator returns the ``no result'' sentinel \<open>None\<close>, whatever
  the cluster count and the seed: it raises nothing and returns no point. It writes one
  status line and leaves the rest of the session as it was.
\<close>

theorem find_data_center_empty:
  "find_data_center pick [] n_clusters s =
     (Inr None, [], st_write (Write ''Dataframe is empty, skipping clustering'') s)"
  by (simp add: find_data_center_def)

text \<open>
  C8: the Estimator never reads its \<open>center\<close> argument: for any two values passed as the
  centre, of any types, the result, the DataFrame and the session are the same. This holds
  for every Dataset, the non-empty ones in particular.
\<close>

theorem calculate_impact_ignores_center:
  "calculate_impact df c1 s = calculate_impact df c2 s"
  by (simp add: calculate_impact_def)

subsection \<open>The Locator with one cluster\<close>

lemma lloyd_step_single: "ps \<noteq> [] \<Longrightarrow> lloyd_step [c] ps = [mean_point ps]"
  by (simp add: lloyd_step_def members_def)

lemma lloyd_single: "ps \<noteq> [] \<Longrightarrow> lloyd (Suc n) [c] ps = [mean_point ps]"
  by (cases n) (auto simp: lloyd_step_single Let_def)

lemma lloyd_max_iter_single:
  assumes "ps \<noteq> []"
  shows "lloyd max_iter [c] ps = [mean_point ps]"
proof -
  have m: "max_iter = Suc 299" by (simp add: max_iter_def)
  show ?thesis unfolding m using assms by (rule lloyd_single)
qed

lemma init_centers_one: "init_centers pick (Suc 0) ps = [ps ! (pick ps 0 mod length ps)]"
  by (simp add: init_centers_def)

lemma collect_Inr_length: "collect rs = Inr xs \<Longrightarrow> length xs = length rs"
  by (induction rs arbitrary: xs rule: collect.induct) (auto split: sum.splits)

lemma collect_map_Inr: "collect (map Inr xs) = Inr xs"
  by (induction xs) auto

lemma kmeans_fit_one:
  "kmeans_fit pick 1 X =
     (case collect (map to_point X) of
        Inl e \<Rightarrow> Inl e
      | Inr ps \<Rightarrow> if ps = [] then Inl ValueError else Inr [mean_point ps])"
proof (cases "collect (map to_point X)")
  case (Inl e)
  then show ?thesis by (simp add: kmeans_fit_def)
next
  case (Inr ps)
  show ?thesis
  proof (cases "ps = []")
    case True
    with Inr show ?thesis by (simp add: kmeans_fit_def)
  next
    case False
    then have "\<not> int (length ps) < 1" by (cases ps) auto
    with Inr False show ?thesis
      by (simp add: kmeans_fit_def init_centers_one lloyd_max_iter_single)
  qed
qed

lemma to_point_num: "to_point (num x, num y) = Inr (x, y)"
  by (simp add: to_point_def num_def)

lemma coords_points:
  assumes "map latitude df = map num lats" and "map longitude df = map num lons"
  shows "map to_point (map (\<lambda>r. (latitude r, longitude r)) df) = map Inr (zip lats lons)"
  using assms
proof (induction df arbitrary: lats lons)
  case Nil
  then show ?case by simp
next
  case (Cons r df)
  then obtain x xs y ys where "lats = x # xs" "lons = y # ys" by (cases lats; cases lons) auto
  with Cons show ?case by (simp add: to_point_num)
qed

lemma sum_list_weighted_replicate:
  "sum_list (map2 (*) (replicate (length xs) a) xs) = a * sum_list (xs::real list)"
  by (induction xs) (simp_all add: algebra_simps)

lemma mean_point_in_hull: "ps \<noteq> [] \<Longrightarrow> in_convex_hull (mean_point ps) ps"
  unfolding in_convex_hull_def
proof (intro exI [of _ "replicate (length ps) (1 / real (length ps))"] conjI)
  assume ne: "ps \<noteq> []"
  show "length (replicate (length ps) (1 / real (length ps))) = length ps" by simp
  show "\<forall>x\<in>set (replicate (length ps) (1 / real (length ps))). 0 \<le> x" by simp
  show "sum_list (replicate (length ps) (1 / real (length ps))) = 1"
    using ne by (simp add: sum_list_replicate)
  have "length (map fst ps) = length ps" "length (map snd ps) = length ps" by simp_all
  then have "sum_list (map2 (*) (replicate (length ps) (1 / real (length ps))) (map fst ps)) = 1 / real (length ps) * sum_list (map fst ps)"
   "sum_list (map2 (*) (replicate (length ps) (1 / real (length ps))) (map snd ps)) = 1 / real (length ps) * sum_list (map snd ps)"
    using sum_list_weighted_replicate [of "map fst ps"] sum_list_weighted_replicate [of "map snd ps"]
    by simp_all
  then show "mean_point ps =
     (sum_list (map2 (*) (replicate (length ps) (1 / real (length ps))) (map fst ps)),
      sum_list (map2 (*) (replicate (length ps) (1 / real (length ps))) (map snd ps)))"
    by (simp add: mean_point_def)
qed

text \<open>
  C1: for every non-empty Dataset whose latitude and longitude columns hold the numbers
  \<open>lats\<close> and \<open>lons\<close>, the Locator with cluster count 1 returns exactly one point, the
  arithmetic mean of the two columns, whatever the seeded generator picks as the initial
  centre; that point is a convex combination of the Dataset's coordinates. The Dataset and
  the session are left as they were.
\<close>

theorem find_data_center_one_cluster:
  assumes "df \<noteq> []"
    and "map latitude df = map num lats"
    and "map longitude df = map num lons"
  shows "find_data_center pick df 1 s =
           (Inr (Some [(sum_list lats / real (length df), sum_list lons / real (length df))]), df, s)
         \<and> in_convex_hull (sum_list lats / real (length df), sum_list lons / real (length df))
              (zip lats lons)"
proof -
  have len: "length lats = length df" "length lons = length df"
    using assms(2,3) by (metis length_map)+
  then have ne: "zip lats lons \<noteq> []" using assms(1) by (cases lats; cases lons) auto
  have mp: "mean_point (zip lats lons) = (sum_list lats / real (length df), sum_list lons / real (length df))"
    using len by (simp add: mean_point_def)
  have "collect (map to_point (map (\<lambda>r. (latitude r, longitude r)) df)) = Inr (zip lats lons)"
    by (simp only: coords_points [OF assms(2,3)] collect_map_Inr)
  then have "kmeans_fit pick 1 (map (\<lambda>r. (latitude r, longitude r)) df) = Inr [mean_point (zip lats lons)]"
    using ne by (simp add: kmeans_fit_one)
  then have "find_data_center pick df 1 s = (Inr (Some [mean_point (zip lats lons)]), df, s)"
    using assms(1) by (simp add: find_data_center_def)
  moreover have "in_convex_hull (mean_point (zip lats lons)) (zip lats lons)"
    using ne by (rule mean_point_in_hull)
  ultimately show ?thesis by (simp only: mp)
qed

theorem find_data_center_one_cluster_witness:
  "[school 1 13.1 (-59.6) 10 2 50, school 2 13.3 (-59.4) 20 4 30] \<noteq> [] \<and>
   find_data_center (\<lambda>X i. 1) [school 1 13.1 (-59.6) 10 2 50, school 2 13.3 (-59.4) 20 4 30] 1
       empty_session =
     (Inr (Some [(13.2, -59.5)]),
      [school 1 13.1 (-59.6) 10 2 50, school 2 13.3 (-59.4) 20 4 30], empty_session) \<and>
   in_convex_hull (13.2, -59.5) [(13.1, -59.6), (13.3, -59.4)]"
  using find_data_center_one_cluster
    [of "[school 1 13.1 (-59.6) 10 2 50, school 2 13.3 (-59.4) 20 4 30]"
        "[13.1, 13.3]" "[-59.6, -59.4]" "\<lambda>X i. 1" empty_session]
  by (simp add: school_def)

subsection \<open>The Estimator\<close>

text \<open>
  C2, as stated, fails: of two records, one with latency 50 and one with a blank latency
  cell, the Estimator reports a ``before'' latency of 50 (and 40 after). That is the mean
  of the one record that has a number, not a mean over both records: the sum over all
  records is \<^verbatim>\<open>NaN\<close>, and the sum of the numbers over the two records would be 25.
\<close>

theorem calculate_impact_blank_cell_counterexample:
  "calculate_impact
     [school 1 13.1 (-59.6) 10 2 50, blank_latency (school 2 13.3 (-59.4) 20 4 30)]
     (Some [(13.2, -59.5)]) empty_session =
   (Inr (Some (Val 40, Val 18, Val 3.6, Val 50, Val 15, Val 3)),
    [school 1 13.1 (-59.6) 10 2 50, blank_latency (school 2 13.3 (-59.4) 20 4 30)],
    empty_session) \<and>
   mean_over_all_records
     (map latency [school 1 13.1 (-59.6) 10 2 50, blank_latency (school 2 13.3 (-59.4) 20 4 30)])
     \<noteq> Val 50"
  by (simp add: calculate_impact_def mean_col_def average_def mean_over_all_records_def
      school_def blank_latency_def num_def)

lemma floats_of_non_blank:
  "floats_of cs = (if has_text cs then Inl TypeError else Inr (non_blank cs))"
  by (induction cs rule: floats_of.induct) (simp_all add: has_text_def)

lemma mean_col_non_blank:
  "mean_col cs = (if has_text cs then Inl TypeError else Inr (mean_non_blank cs))"
  by (simp add: mean_col_def floats_of_non_blank mean_non_blank_def average_def)

lemma non_blank_num: "non_blank (map num xs) = xs"
  by (induction xs) (simp_all add: num_def)

lemma mean_non_blank_num:
  "xs \<noteq> [] \<Longrightarrow> mean_non_blank (map num xs) = Val (sum_list xs / real (length xs))"
  by (simp add: mean_non_blank_def non_blank_num)

text \<open>
  C2, amended: for every non-empty Dataset without a text cell in the latency,
  download_speed and upload_speed columns, the Estimator returns six values: each
  ``before'' value is the arithmetic mean of its column over the records whose cell is not
  blank (\<^verbatim>\<open>NaN\<close> when the column has no number), and the ``after'' values are the float
  products of the ``before'' values with 0.8 (latency) and 1.2 (download, upload). For a
  column that holds a number in every record, that mean is the mean over all records and
  the ``after'' value is exactly 0.8 or 1.2 times it. With a text cell in one of the three
  columns the Estimator raises \<^verbatim>\<open>TypeError\<close>. The Dataset and the session are left as
  they were.
\<close>

theorem calculate_impact_means:
  assumes "df \<noteq> []"
  shows "(if has_text (map latency df) \<or> has_text (map download_speed df)
             \<or> has_text (map upload_speed df)
          then fst (calculate_impact df center s) = Inl TypeError
          else calculate_impact df center s =
                 (Inr (Some (fmul (mean_non_blank (map latency df)) 0.8,
                             fmul (mean_non_blank (map download_speed df)) 1.2,
                             fmul (mean_non_blank (map upload_speed df)) 1.2,
                             mean_non_blank (map latency df),
                             mean_non_blank (map download_speed df),
                             mean_non_blank (map upload_speed df))), df, s)) \<and>
         (\<forall>col xs. map col df = map num xs \<longrightarrow>
            mean_non_blank (map col df) = Val (sum_list xs / real (length df)) \<and>
            fmul (mean_non_blank (map col df)) 0.8 = Val (0.8 * (sum_list xs / real (length df))) \<and>
            fmul (mean_non_blank (map col df)) 1.2 = Val (1.2 * (sum_list xs / real (length df))))"
proof (intro conjI allI impI)
  show "if has_text (map latency df) \<or> has_text (map download_speed df)
             \<or> has_text (map upload_speed df)
          then fst (calculate_impact df center s) = Inl TypeError
          else calculate_impact df center s =
                 (Inr (Some (fmul (mean_non_blank (map latency df)) 0.8,
                             fmul (mean_non_blank (map download_speed df)) 1.2,
                             fmul (mean_non_blank (map upload_speed df)) 1.2,
                             mean_non_blank (map latency df),
                             mean_non_blank (map download_speed df),
                             mean_non_blank (map upload_speed df))), df, s)"
    using assms by (simp add: calculate_impact_def mean_col_non_blank)
next
  fix col :: "'a measurement_record \<Rightarrow> cell" and xs
  assume c: "map col df = map num xs"
  then have len: "length xs = length df" by (metis length_map)
  with assms have "xs \<noteq> []" by auto
  then have "mean_non_blank (map num xs) = Val (sum_list xs / real (length xs))"
    by (rule mean_non_blank_num)
  then have m: "mean_non_blank (map col df) = Val (sum_list xs / real (length df))"
    by (simp only: c len)
  show "mean_non_blank (map col df) = Val (sum_list xs / real (length df))" by (rule m)
  show "fmul (mean_non_blank (map col df)) 0.8 = Val (0.8 * (sum_list xs / real (length df)))"
    by (simp add: m)
  show "fmul (mean_non_blank (map col df)) 1.2 = Val (1.2 * (sum_list xs / real (length df)))"
    by (simp add: m)
qed

theorem calculate_impact_means_witness:
  "[school 1 13.1 (-59.6) 10 2 50, school 2 13.3 (-59.4) 20 4 30] \<noteq> [] \<and>
   map latency [school 1 13.1 (-59.6) 10 2 50, school 2 13.3 (-59.4) 20 4 30] = map num [50, 30] \<and>
   calculate_impact [school 1 13.1 (-59.6) 10 2 50, school 2 13.3 (-59.4) 20 4 30]
       (Some [(13.2, -59.5)]) empty_session =
     (Inr (Some (Val 32, Val 18, Val 3.6, Val 40, Val 15, Val 3)),
      [school 1 13.1 (-59.6) 10 2 50, school 2 13.3 (-59.4) 20 4 30], empty_session) \<and>
   calculate_impact
       [school 1 13.1 (-59.6) 10 2 50, blank_latency (school 2 13.3 (-59.4) 20 4 30)]
       (Some [(13.2, -59.5)]) empty_session =
     (Inr (Some (Val 40, Val 18, Val 3.6, Val 50, Val 15, Val 3)),
      [school 1 13.1 (-59.6) 10 2 50, blank_latency (school 2 13.3 (-59.4) 20 4 30)],
      empty_session) \<and>
   fst (calculate_impact
       [school 1 13.1 (-59.6) 10 2 50, text_latency (school 2 13.3 (-59.4) 20 4 30)]
       (Some [(13.2, -59.5)]) empty_session) = Inl TypeError"
  using calculate_impact_means
      [of "[school 1 13.1 (-59.6) 10 2 50, school 2 13.3 (-59.4) 20 4 30]"
          "Some [(13.2, -59.5)]" empty_session, THEN conjunct1]
    calculate_impact_means
      [of "[school 1 13.1 (-59.6) 10 2 50, school 2 13.3 (-59.4) 20 4 30]"
          "Some [(13.2, -59.5)]" empty_session, THEN conjunct2, rule_format, of latency "[50, 30]"]
    calculate_impact_means
      [of "[school 1 13.1 (-59.6) 10 2 50, blank_latency (school 2 13.3 (-59.4) 20 4 30)]"
          "Some [(13.2, -59.5)]" empty_session, THEN conjunct1]
    calculate_impact_means
      [of "[school 1 13.1 (-59.6) 10 2 50, text_latency (school 2 13.3 (-59.4) 20 4 30)]"
          "Some [(13.2, -59.5)]" empty_session, THEN conjunct1]
  by (simp add: school_def blank_latency_def text_latency_def has_text_def mean_non_blank_def
      num_def)

subsection \<open>The inner join\<close>

text \<open>
  C3, as stated, fails: one school with two measurements gives two joined rows, more than
  the smaller sheet has.
\<close>

theorem merge_inner_row_count_counterexample:
  "\<not> length (merge_inner [geo 1 13.1 (-59.6)] [measurement 1 10 2 50, measurement 1 12 3 40])
       \<le> min (length [geo 1 13.1 (-59.6)])
              (length [measurement 1 10 2 50, measurement 1 12 3 40])"
  by (simp add: merge_inner_def geo_def measurement_def)

lemma school_id_giga_join_row [simp]: "school_id_giga (join_row a b) = ll_school_id_giga a"
  by (simp add: join_row_def)

lemma length_merge_inner:
  "length (merge_inner A B) =
     sum_list (map (\<lambda>a. length (filter (\<lambda>b. m_school_id_giga b = ll_school_id_giga a) B)) A)"
  by (simp add: merge_inner_def length_concat comp_def)

lemma matches_le_one:
  "distinct (map m_school_id_giga B) \<Longrightarrow> length (filter (\<lambda>b. m_school_id_giga b = k) B) \<le> 1"
  by (induction B) (auto simp: filter_empty_conv image_iff)

lemma length_merge_inner_le_left:
  "distinct (map m_school_id_giga B) \<Longrightarrow> length (merge_inner A B) \<le> length A"
proof (induction A)
  case Nil
  then show ?case by (simp add: merge_inner_def)
next
  case (Cons a A)
  have "length (merge_inner (a # A) B) =
          length (filter (\<lambda>b. m_school_id_giga b = ll_school_id_giga a) B) + length (merge_inner A B)"
    by (simp add: merge_inner_def)
  with Cons matches_le_one [of B "ll_school_id_giga a"] show ?case by simp
qed

lemma length_merge_inner_swap:
  "length (merge_inner A B) =
     sum_list (map (\<lambda>b. length (filter (\<lambda>a. ll_school_id_giga a = m_school_id_giga b) A)) B)"
proof (induction B arbitrary: A)
  case Nil
  then show ?case by (simp add: length_merge_inner)
next
  case (Cons b B)
  have "sum_list (map (\<lambda>a. length (filter (\<lambda>b. m_school_id_giga b = ll_school_id_giga a) (b # B))) A)
      = length (filter (\<lambda>a. ll_school_id_giga a = m_school_id_giga b) A)
        + sum_list (map (\<lambda>a. length (filter (\<lambda>b. m_school_id_giga b = ll_school_id_giga a) B)) A)"
    by (induction A) auto
  with Cons [of A] show ?case by (simp add: length_merge_inner)
qed

lemma matches_le_one_left:
  "distinct (map ll_school_id_giga A) \<Longrightarrow> length (filter (\<lambda>a. ll_school_id_giga a = k) A) \<le> 1"
  by (induction A) (auto simp: filter_empty_conv image_iff)

lemma length_merge_inner_le_right:
  assumes "distinct (map ll_school_id_giga A)"
  shows "length (merge_inner A B) \<le> length B"
proof -
  have "sum_list (map (\<lambda>b. length (filter (\<lambda>a. ll_school_id_giga a = m_school_id_giga b) A)) B)
          \<le> sum_list (map (\<lambda>b. 1) B)"
    using matches_le_one_left [OF assms] by (intro sum_list_mono) simp
  then show ?thesis by (simp add: length_merge_inner_swap sum_list_triv)
qed

lemma length_merge_inner_le_product: "length (merge_inner A B) \<le> length A * length B"
proof -
  have "sum_list (map (\<lambda>a. length (filter (\<lambda>b. m_school_id_giga b = ll_school_id_giga a) B)) A)
          \<le> sum_list (map (\<lambda>a. length B) A)"
    by (rule sum_list_mono) simp
  then show ?thesis by (simp add: length_merge_inner sum_list_triv)
qed

lemma merge_inner_keys:
  assumes "r \<in> set (merge_inner A B)"
  shows "school_id_giga r \<in> ll_school_id_giga ` set A \<and>
         school_id_giga r \<in> m_school_id_giga ` set B"
proof -
  from assms obtain a b where ab: "a \<in> set A" "b \<in> set B"
      "m_school_id_giga b = ll_school_id_giga a" "r = join_row a b"
    by (auto simp: merge_inner_def)
  have k1: "school_id_giga r = ll_school_id_giga a" using ab(4) by simp
  have k2: "school_id_giga r = m_school_id_giga b" using ab(3,4) by simp
  have "ll_school_id_giga a \<in> ll_school_id_giga ` set A" using ab(1) by (rule imageI)
  moreover have "m_school_id_giga b \<in> m_school_id_giga ` set B" using ab(2) by (rule imageI)
  ultimately show ?thesis by (simp only: k1 [symmetric] k2 [symmetric])
qed

text \<open>
  C3, amended: when the join key occurs at most once in each sheet, the joined table has at
  most as many rows as the smaller sheet; in any case it has at most (rows of A) times
  (rows of B) rows, and the key of every joined row occurs in both sheets.
\<close>

theorem merge_inner_law:
  "(distinct (map ll_school_id_giga A) \<and> distinct (map m_school_id_giga B)
      \<longrightarrow> length (merge_inner A B) \<le> min (length A) (length B)) \<and>
   length (merge_inner A B) \<le> length A * length B \<and>
   (\<forall>r \<in> set (merge_inner A B).
      school_id_giga r \<in> ll_school_id_giga ` set A \<and>
      school_id_giga r \<in> m_school_id_giga ` set B)"
  using length_merge_inner_le_left [of B A] length_merge_inner_le_right [of A B]
    length_merge_inner_le_product [of A B] merge_inner_keys [of _ A B]
  by auto

theorem merge_inner_law_witness:
  "distinct (map ll_school_id_giga [geo 1 13.1 (-59.6), geo 2 13.3 (-59.4)]) \<and>
   distinct (map m_school_id_giga [measurement 2 20 4 30, measurement 3 5 1 90]) \<and>
   merge_inner [geo 1 13.1 (-59.6), geo 2 13.3 (-59.4)]
               [measurement 2 20 4 30, measurement 3 5 1 90] = [school 2 13.3 (-59.4) 20 4 30] \<and>
   length (merge_inner [geo 1 13.1 (-59.6), geo 2 13.3 (-59.4)]
                       [measurement 2 20 4 30, measurement 3 5 1 90]) \<le> min 2 2 \<and>
   school_id_giga (school 2 13.3 (-59.4) 20 4 30) \<in> {1, 2} \<and>
   school_id_giga (school 2 13.3 (-59.4) 20 4 30) \<in> {2, 3}"
  using merge_inner_law [of "[geo 1 13.1 (-59.6), geo 2 13.3 (-59.4)]"
                            "[measurement 2 20 4 30, measurement 3 5 1 90]"]
  by (simp add: merge_inner_def join_row_def geo_def measurement_def school_def)

subsection \<open>The Loader\<close>

text \<open>
  C4: the Loader never raises: it always returns a Dataset. The Dataset is empty when the
  request raises, when the status is not 200, and when reading either sheet raises (a
  malformed spreadsheet); it is the joined table when the status is 200 and both sheets are
  read.
\<close>

theorem load_data_never_raises:
  "(\<exists>df. fst (load_data http_get xl url s) = Inr df) \<and>
   (\<forall>e. http_get url = Inl e \<longrightarrow> fst (load_data http_get xl url s) = Inr []) \<and>
   (\<forall>r. http_get url = Inr r \<and> status_code r \<noteq> 200 \<longrightarrow>
        fst (load_data http_get xl url s) = Inr []) \<and>
   (\<forall>r e. http_get url = Inr r \<and>
          (read_lat_long xl (content r) = Inl e \<or> read_measurement xl (content r) = Inl e) \<longrightarrow>
        fst (load_data http_get xl url s) = Inr []) \<and>
   (\<forall>r A B. http_get url = Inr r \<and> status_code r = 200 \<and>
            read_lat_long xl (content r) = Inr A \<and> read_measurement xl (content r) = Inr B \<longrightarrow>
        fst (load_data http_get xl url s) = Inr (merge_inner A B))"
  by (auto simp: load_data_def load_data_try_def Let_def split: sum.splits prod.splits)

theorem load_data_never_raises_witness:
  "fst (load_data unreachable corrupt data_url empty_session) = Inr [] \<and>
   fst (load_data (respond 404) (workbook [geo 1 13.1 (-59.6)] [measurement 1 10 2 50])
          data_url empty_session) = Inr [] \<and>
   fst (load_data (respond 200) corrupt data_url empty_session) = Inr [] \<and>
   fst (load_data (respond 200) (workbook [geo 1 13.1 (-59.6)] [measurement 1 10 2 50])
          data_url empty_session) = Inr [school 1 13.1 (-59.6) 10 2 50]"
  using load_data_never_raises [of unreachable corrupt data_url empty_session]
    load_data_never_raises [of "respond 404" "workbook [geo 1 13.1 (-59.6)] [measurement 1 10 2 50]"
      data_url empty_session]
    load_data_never_raises [of "respond 200" corrupt data_url empty_session]
    load_data_never_raises [of "respond 200" "workbook [geo 1 13.1 (-59.6)] [measurement 1 10 2 50]"
      data_url empty_session]
  by (simp add: unreachable_def respond_def corrupt_def workbook_def merge_inner_def join_row_def
      geo_def measurement_def school_def)

subsection \<open>Frame and failure of the stages\<close>

text \<open>
  C10: the Locator, the Estimator and the map Presenter leave the Dataset they are passed
  unchanged, whether they return a result, return the sentinel or raise: the three
  functions only read the table (the emptiness test, a column selection, an iteration over
  the rows, a mean).
\<close>

theorem stages_leave_dataset_unchanged:
  "fst (snd (find_data_center pick df n_clusters s)) = df \<and>
   fst (snd (calculate_impact df center s)) = df \<and>
   fst (snd (plot_map df centers s)) = df"
  by (simp add: find_data_center_def calculate_impact_def plot_map_def Let_def
      split: sum.splits option.splits list.splits)

text \<open>
  C9: there are non-empty Datasets with a malformed coordinate on which the Locator raises:
  one whose only latitude is text, and one whose second longitude is missing (\<^verbatim>\<open>NaN\<close>).
  In both the result is the exception \<^verbatim>\<open>ValueError\<close>, not the sentinel \<open>None\<close> and not
  a point: only the empty Dataset is guarded.
\<close>

theorem find_data_center_malformed_raises:
  "find_data_center pick
     [\<lparr>school_id_giga = 1::nat, latitude = Text ''unknown'', longitude = num (-59.6),
       school_name = None, download_speed = num 10, upload_speed = num 2, latency = num 50\<rparr>]
     1 s =
   (Inl ValueError,
    [\<lparr>school_id_giga = 1::nat, latitude = Text ''unknown'', longitude = num (-59.6),
      school_name = None, download_speed = num 10, upload_speed = num 2, latency = num 50\<rparr>],
    s)
   \<and>
   find_data_center pick
     [school 1 13.1 (-59.6) 10 2 50, (school 2 13.3 (-59.4) 20 4 30)\<lparr>longitude := Float NaN\<rparr>]
     1 s =
   (Inl ValueError,
    [school 1 13.1 (-59.6) 10 2 50, (school 2 13.3 (-59.4) 20 4 30)\<lparr>longitude := Float NaN\<rparr>],
    s)"
  by (simp add: find_data_center_def kmeans_fit_def to_point_def num_def school_def)

subsection \<open>The pipeline\<close>

lemma load_data_cong:
  "http_get_a url = http_get_b url \<Longrightarrow> load_data http_get_a xl url s = load_data http_get_b xl url s"
  by (simp add: load_data_def load_data_try_def)

lemma find_data_center_one_any_pick:
  "find_data_center pick_a df 1 s = find_data_center pick_b df 1 s"
  by (simp add: find_data_center_def kmeans_fit_one)

text \<open>
  C7: two runs that fetch the same response from the program's URL, with the same parser
  and from the same session, end alike: the same Dataset is loaded, the Locator returns
  the same centre (even under different choices of the seeded generator, the cluster count
  being 1), and \<open>main\<close> ends with the same outcome and the same session, which holds the
  rendered map with its centre marker and the chart with the six values of the
  ImpactSummary.
\<close>

theorem pipeline_deterministic:
  assumes "http_get_a data_url = http_get_b data_url"
  shows "load_data http_get_a xl data_url s = load_data http_get_b xl data_url s \<and>
         find_data_center pick_a df 1 s' = find_data_center pick_b df 1 s' \<and>
         main http_get_a xl pick_a s = main http_get_b xl pick_b s"
proof -
  have l: "load_data http_get_a xl data_url s = load_data http_get_b xl data_url s"
    using assms by (rule load_data_cong)
  have f: "\<And>d t. find_data_center pick_a d 1 t = find_data_center pick_b d 1 t"
    by (rule find_data_center_one_any_pick)
  have "main http_get_a xl pick_a s = main http_get_b xl pick_b s"
    unfolding main_def l f ..
  with l f show ?thesis by simp
qed

theorem pipeline_deterministic_witness:
  "respond 200 data_url = mirror data_url \<and>
   main (respond 200) (workbook [geo 1 13.1 (-59.6)] [measurement 1 10 2 50]) (\<lambda>X i. 0)
        empty_session =
   main mirror (workbook [geo 1 13.1 (-59.6)] [measurement 1 10 2 50]) (\<lambda>X i. 1)
        empty_session \<and>
   find_data_center (\<lambda>X i. 0) [school 1 13.1 (-59.6) 10 2 50, school 2 13.3 (-59.4) 20 4 30] 1
        empty_session =
   find_data_center (\<lambda>X i. 1) [school 1 13.1 (-59.6) 10 2 50, school 2 13.3 (-59.4) 20 4 30] 1
        empty_session"
proof -
  have h: "respond 200 data_url = mirror data_url"
    by (simp add: respond_def mirror_def)
  show ?thesis
    using h pipeline_deterministic [where http_get_a = "respond 200" and http_get_b = mirror
          and xl = "workbook [geo 1 13.1 (-59.6)] [measurement 1 10 2 50]"
          and s = empty_session and pick_a = "\<lambda>X i. 0" and pick_b = "\<lambda>X i. 1"
          and df = "[school 1 13.1 (-59.6) 10 2 50, school 2 13.3 (-59.4) 20 4 30]"
          and s' = empty_session]
    by simp
qed

text \<open>
  C5: when the Loader produces an empty Dataset, \<open>main\<close> ends without an exception after
  one more status line: no stage is run, nothing is rendered and no file is written. Each
  stage, called on the empty Dataset, skips its work and returns its sentinel without
  raising: the Locator, the map Presenter and the Estimator return \<open>None\<close>, and the chart
  Presenter, given \<open>None\<close> for the first value, shows no chart.
\<close>

theorem empty_dataset_aborts:
  assumes "fst (load_data http_get xl data_url s) = Inr []"
  shows "main http_get xl pick s =
           (Inr (), st_write (Write ''No data to process, exiting application.'')
                      (snd (load_data http_get xl data_url s))) \<and>
         find_data_center pick [] n_clusters t =
           (Inr None, [], st_write (Write ''Dataframe is empty, skipping clustering'') t) \<and>
         plot_map [] centers t =
           (Inr None, [], st_write (Write ''Dataframe is empty, skipping map plotting'') t) \<and>
         calculate_impact [] center t =
           (Inr None, [], st_write (Write ''Dataframe is empty, skipping impact calculation'') t) \<and>
         display_3d_bar_chart None a b c d e t =
           (Inr (), st_write (Write ''No data to display in the chart.'') t)"
proof -
  obtain s1 where "load_data http_get xl data_url s = (Inr [], s1)"
    using assms by (cases "load_data http_get xl data_url s") auto
  then have "main http_get xl pick s =
           (Inr (), st_write (Write ''No data to process, exiting application.'')
                      (snd (load_data http_get xl data_url s)))"
    by (simp add: main_def)
  then show ?thesis
    by (simp add: find_data_center_def plot_map_def calculate_impact_def display_3d_bar_chart_def)
qed

theorem empty_dataset_aborts_witness:
  "fst (load_data (respond 200) (workbook [geo 1 13.1 (-59.6)] [measurement 2 10 2 50])
          data_url empty_session) = Inr [] \<and>
   main (respond 200) (workbook [geo 1 13.1 (-59.6)] [measurement 2 10 2 50]) (\<lambda>X i. 0)
        empty_session =
     (Inr (),
      \<lparr>display = [Write (''Loading data from '' @ data_url @ ''...''),
                  Write ''Data loaded successfully'',
                  Write ''No data to process, exiting application.''],
       files = Map.empty\<rparr>)"
proof -
  have l: "load_data (respond 200) (workbook [geo 1 13.1 (-59.6)] [measurement 2 10 2 50])
             data_url empty_session =
           (Inr [], \<lparr>display = [Write (''Loading data from '' @ data_url @ ''...''),
                                Write ''Data loaded successfully''],
                     files = Map.empty\<rparr>)"
    by (simp add: load_data_def load_data_try_def respond_def workbook_def merge_inner_def
        geo_def measurement_def st_write_def empty_session_def)
  then have h: "fst (load_data (respond 200)
                       (workbook [geo 1 13.1 (-59.6)] [measurement 2 10 2 50])
                       data_url empty_session) = Inr []"
    by simp
  note m = empty_dataset_aborts [OF h, THEN conjunct1, of "\<lambda>X i. 0"]
  show ?thesis
    unfolding m l by (simp add: st_write_def)
qed

text \<open>
  The first end-to-end scenario of the spec: one school in each sheet, with the same
  identifier. The centre is the school's location, the ``before'' values are (50, 10, 2)
  and the ``after'' values (40, 12, 2.4).
\<close>

lemma end_to_end_scenario:
  "main (respond 200) (workbook [geo 1 13.1 (-59.6)] [measurement 1 10 2 50]) (\<lambda>X i. 0) empty_session =
   (Inr (),
  \<lparr>display =
     [Write (''Loading data from '' @ data_url @ ''...''),
      Write ''Data loaded successfully'',
      Html
       \<lparr>map_location = (13.1, -59.6), map_zoom_start = 10,
          map_cluster =
            [\<lparr>mk_location = (13.1, -59.6),
                mk_popup =
                  School_Popup (Text ''N/A'') (num 10) (num 2) (num 50),
                mk_color = ''blue'', mk_icon = ''info-sign''\<rparr>],
          map_markers =
            [\<lparr>mk_location = (13.1, -59.6),
                mk_popup = Plain_Popup ''Proposed Data Center'',
                mk_color = ''red'', mk_icon = ''cloud''\<rparr>]\<rparr>
       600,
      Plotly_Chart
       \<lparr>ch_metric =
          [''Latency (ms)'', ''Download Speed (Mbps)'',
           ''Upload Speed (Mbps)''],
          ch_before = [Some (Val 50), Some (Val 10), Some (Val 2)],
          ch_after = [Some (Val 40), Some (Val 12), Some (Val 2.4)],
          ch_barmode = ''group'',
          ch_title = ''Impact of Data Center on Latency and Bandwidth'',
          ch_height = 400\<rparr>],
     files = [''map.html'' \<mapsto> \<lparr>map_location = (13.1, -59.6), map_zoom_start = 10,
          map_cluster =
            [\<lparr>mk_location = (13.1, -59.6),
                mk_popup =
                  School_Popup (Text ''N/A'') (num 10) (num 2) (num 50),
                mk_color = ''blue'', mk_icon = ''info-sign''\<rparr>],
          map_markers =
            [\<lparr>mk_location = (13.1, -59.6),
                mk_popup = Plain_Popup ''Proposed Data Center'',
                mk_color = ''red'', mk_icon = ''cloud''\<rparr>]\<rparr>]\<rparr>)"
  by (simp add: main_def load_data_def load_data_try_def respond_def workbook_def merge_inner_def
      join_row_def geo_def measurement_def st_write_def empty_session_def find_data_center_def
      kmeans_fit_one to_point_def num_def mean_point_def plot_map_def school_marker_def
      embed_map_def report_impact_def calculate_impact_def mean_col_def average_def
      display_3d_bar_chart_def)

end
